theory Spec2Isabelle
  imports Complex_Main "HOL-Library.Word"
begin

unbundle bit_operations_syntax

section \<open>Data model\<close>

text \<open>
  The gui script binding (\<^verbatim>\<open>gui/src/gui_script.cpp\<close>) works on node handles
  \<^verbatim>\<open>HNode\<close>: one 32-bit word whose upper half is a version and whose lower half is
  an index into the scene's node array (the type is declared in \<^verbatim>\<open>gui.h\<close>, not
  part of the sources; \<^verbatim>\<open>IsValidNode\<close> reads bits 0 to 31). Numbers of the
  scripting language (\<^verbatim>\<open>lua_Number\<close>) and vector components are modelled as
  reals: they are only stored, copied and truncated here, their rounding is not
  modelled.
\<close>

type_synonym HNode = "32 word"

type_synonym Vector4 = "real \<times> real \<times> real \<times> real"

text \<open>
  The node payload and its pool entry, with the fields the binding reads and writes
  (\<^verbatim>\<open>n->m_Node.m_Properties\<close>, \<^verbatim>\<open>m_NodeType\<close>, \<^verbatim>\<open>m_Text\<close>,
  \<^verbatim>\<open>m_BlendMode\<close>, \<^verbatim>\<open>m_Font\<close>; \<^verbatim>\<open>n->m_Version\<close>, \<^verbatim>\<open>n->m_Index\<close>,
  \<^verbatim>\<open>n->m_Deleted\<close>), and the userdata \<^verbatim>\<open>NodeProxy\<close> a script holds for a
  node: the scene's address and the handle. The version and the index are 16 bits
  wide, as \<^verbatim>\<open>IsValidNode\<close> compares them.
\<close>

datatype NodeType = NODE_TYPE_BOX | NODE_TYPE_TEXT

record Node =
  m_Properties :: "Vector4 list"
  m_NodeType :: NodeType
  m_Text :: "string option"
  m_BlendMode :: int
  m_Font :: nat

record NodeProxy =
  m_Scene :: nat
  m_Node :: HNode

record InternalNode =
  m_Node :: Node
  m_Version :: "16 word"
  m_Index :: "16 word"
  m_Deleted :: bool

text \<open>
  Modelled from the spec: the closed \<^verbatim>\<open>Property\<close> enumeration (position, rotation,
  scale, color, extents) and the closed easing set (none, in, out, in-out); their
  declarations (\<^verbatim>\<open>gui.h\<close>) are not part of the sources. The binding registers
  exactly these names with the script (lines 968 to 983) and compares against
  \<^verbatim>\<open>PROPERTY_COUNT\<close> and \<^verbatim>\<open>EASING_COUNT\<close>.
\<close>

definition PROPERTY_POSITION :: nat where "PROPERTY_POSITION = 0"
definition PROPERTY_ROTATION :: nat where "PROPERTY_ROTATION = 1"
definition PROPERTY_SCALE :: nat where "PROPERTY_SCALE = 2"
definition PROPERTY_COLOR :: nat where "PROPERTY_COLOR = 3"
definition PROPERTY_EXTENTS :: nat where "PROPERTY_EXTENTS = 4"
definition PROPERTY_COUNT :: int where "PROPERTY_COUNT = 5"

definition EASING_NONE :: int where "EASING_NONE = 0"
definition EASING_IN :: int where "EASING_IN = 1"
definition EASING_OUT :: int where "EASING_OUT = 2"
definition EASING_INOUT :: int where "EASING_INOUT = 3"
definition EASING_COUNT :: int where "EASING_COUNT = 4"

text \<open>
  The completion callback handed to \<^verbatim>\<open>AnimateNode\<close>: a null pointer or the
  address of \<^verbatim>\<open>LuaAnimationComplete\<close>, the only callback the binding ever passes.
\<close>

datatype AnimationComplete = LuaAnimationCompletePtr

text \<open>
  Modelled from the spec: a Track, one animation in flight (target handle, property,
  start value captured at creation, end value, easing, duration, remaining delay,
  elapsed time, completion token). The callback pointer and the two opaque words are
  the last three arguments of the source's call of \<^verbatim>\<open>AnimateNode\<close>.
\<close>

record Track =
  t_node :: HNode
  t_property :: int
  t_from :: Vector4
  t_to :: Vector4
  t_easing :: int
  t_duration :: real
  t_delay :: real
  t_elapsed :: real
  t_complete :: "AnimationComplete option"
  t_userdata1 :: int
  t_userdata2 :: int

text \<open>
  Modelled from the spec: the Scene owns one Node Pool and one Animation Scheduler.
  \<^verbatim>\<open>m_Nodes\<close> and \<^verbatim>\<open>m_SelfReference\<close> are the fields the binding reads;
  the free list of the pool (\<open>m_NodePool\<close>) and the Tracks of the scheduler in
  creation order (\<open>m_Animations\<close>) follow the spec, since the code that owns them
  (\<^verbatim>\<open>gui.cpp\<close>) is not part of the sources.
\<close>

record Scene =
  m_Nodes :: "InternalNode list"
  m_SelfReference :: int
  m_NodePool :: "nat list"
  m_Animations :: "Track list"

section \<open>Handle validation\<close>

text \<open>\<^verbatim>\<open>IsValidNode(HScene scene, HNode node)\<close>, lines 51 to 64.\<close>

definition IsValidNode :: "Scene \<Rightarrow> HNode \<Rightarrow> bool" where
  "IsValidNode scene node =
     (let version = (ucast (drop_bit 16 node) :: 16 word);
          index = (ucast (node AND 0xffff) :: 16 word)
      in if unat index < length (m_Nodes scene)
         then (let n = m_Nodes scene ! unat index
               in m_Version n = version \<and> m_Index n = index)
         else False)"

text \<open>The two halves of a handle, as \<^verbatim>\<open>IsValidNode\<close> decodes them.\<close>

definition node_version :: "HNode \<Rightarrow> 16 word" where
  "node_version node = ucast (drop_bit 16 node)"

definition node_index :: "HNode \<Rightarrow> 16 word" where
  "node_index node = ucast (node AND 0xffff)"

text \<open>
  A slot is occupied when it records its own position: the second conjunct
  \<^verbatim>\<open>n->m_Index == index\<close> of \<^verbatim>\<open>IsValidNode\<close> is the occupancy test
  (the binding reads no separate flag).
\<close>

definition slot_occupied :: "Scene \<Rightarrow> nat \<Rightarrow> bool" where
  "slot_occupied scene i = (unat (m_Index (m_Nodes scene ! i)) = i)"

text \<open>
  Modelled from the spec: a Handle encodes (version, index). The layout is the one
  \<^verbatim>\<open>IsValidNode\<close> decodes: the version counter shifted into the upper half of the
  32-bit word, the index in the lower half. The version is given as an unbounded
  counter to show what the 32-bit word keeps of it.
\<close>

definition pack_handle :: "nat \<Rightarrow> 16 word \<Rightarrow> HNode" where
  "pack_handle version index = push_bit 16 (of_nat version) OR ucast index"

section \<open>The script state\<close>

text \<open>
  Values on the script stack, as far as the binding distinguishes them. A string that
  converts to a number is read by \<^verbatim>\<open>lua_isnumber\<close>, \<^verbatim>\<open>lua_tonumber\<close>
  and \<^verbatim>\<open>luaL_checknumber\<close> as that number and is represented by it;
  \<open>LString\<close> holds the other strings. \<open>LNone\<close> is an index above the stack top.
  \<open>LNodeProxy\<close> is a userdata with the \<^verbatim>\<open>NodeProxy\<close> metatable,
  \<open>LVector3\<close> and \<open>LVector4\<close> are the script library's vector userdata,
  \<open>LUserdata\<close> any other full userdata.
\<close>

datatype lua_value =
    LNone
  | LNil
  | LBoolean bool
  | LNumber real
  | LString string
  | LFunction nat
  | LLightUserdata nat
  | LNodeProxy NodeProxy
  | LVector3 real real real
  | LVector4 Vector4
  | LUserdata nat

text \<open>The errors the binding raises with \<^verbatim>\<open>luaL_error\<close> and \<^verbatim>\<open>luaL_typerror\<close>.\<close>

datatype lua_error =
    DeletedNode
  | TypeError nat string
  | InvalidPropertyIndex int
  | InvalidEasingValue int

text \<open>
  The part of \<^verbatim>\<open>lua_State\<close> the binding reads and writes: the scenes in memory
  (by address), the global \<^verbatim>\<open>__scene__\<close>, the registry with its references
  (reference \<open>k\<close> is position \<open>k - 1\<close>; released references wait in
  \<open>l_free_refs\<close> for reuse), and the protected calls made so far, each with the
  called value and its arguments. What a called script function does is not modelled.
\<close>

record lua_State =
  l_scenes :: "nat \<Rightarrow> Scene"
  l_scene_global :: nat
  l_registry :: "lua_value list"
  l_free_refs :: "nat list"
  l_pcalls :: "(lua_value \<times> lua_value list) list"

definition NODE_PROXY_TYPE_NAME :: string where
  "NODE_PROXY_TYPE_NAME = ''NodeProxy''"

definition LUA_NOREF :: int where "LUA_NOREF = - 2"
definition LUA_REFNIL :: int where "LUA_REFNIL = - 1"

text \<open>Argument \<open>i\<close> of the running call (stack indices start at 1).\<close>

definition lua_arg :: "lua_value list \<Rightarrow> nat \<Rightarrow> lua_value" where
  "lua_arg args i = (if 1 \<le> i \<and> i \<le> length args then args ! (i - 1) else LNone)"

definition lua_isnumber :: "lua_value \<Rightarrow> bool" where
  "lua_isnumber v = (case v of LNumber _ \<Rightarrow> True | _ \<Rightarrow> False)"

definition lua_isfunction :: "lua_value \<Rightarrow> bool" where
  "lua_isfunction v = (case v of LFunction _ \<Rightarrow> True | _ \<Rightarrow> False)"

definition lua_isnone :: "lua_value \<Rightarrow> bool" where
  "lua_isnone v = (case v of LNone \<Rightarrow> True | _ \<Rightarrow> False)"

definition lua_tonumber :: "lua_value \<Rightarrow> real" where
  "lua_tonumber v = (case v of LNumber x \<Rightarrow> x | _ \<Rightarrow> 0)"

definition luaL_checknumber :: "lua_value list \<Rightarrow> nat \<Rightarrow> lua_error + real" where
  "luaL_checknumber args i =
     (case lua_arg args i of LNumber x \<Rightarrow> Inr x | _ \<Rightarrow> Inl (TypeError i ''number''))"

text \<open>
  The C cast \<^verbatim>\<open>(int)\<close> of a number truncates towards zero. (A number outside
  the range of \<^verbatim>\<open>int\<close> has no defined result in C; the model keeps the
  truncated integer.)
\<close>

definition c_int :: "real \<Rightarrow> int" where
  "c_int x = (if 0 \<le> x then \<lfloor>x\<rfloor> else \<lceil>x\<rceil>)"

text \<open>
  \<^verbatim>\<open>luaL_ref\<close>, \<^verbatim>\<open>lua_unref\<close> and \<^verbatim>\<open>lua_rawgeti\<close> on the registry
  (the Lua 5.1 auxiliary library): a new reference reuses the most recently released
  one, or else extends the registry; \<^verbatim>\<open>nil\<close> gets the constant
  \<^verbatim>\<open>LUA_REFNIL\<close> and no entry. A released entry holds the reference released
  before it (the library's free list); releasing reference 0 empties the free list.
  Reference 0 and references beyond the registry read as \<^verbatim>\<open>nil\<close>.
\<close>

definition luaL_ref :: "lua_value \<Rightarrow> lua_State \<Rightarrow> int \<times> lua_State" where
  "luaL_ref v L =
     (if v = LNil then (LUA_REFNIL, L)
      else case l_free_refs L of
             r # rest \<Rightarrow>
               (int r, L\<lparr>l_registry := (l_registry L)[r - 1 := v], l_free_refs := rest\<rparr>)
           | [] \<Rightarrow>
               (int (length (l_registry L)) + 1, L\<lparr>l_registry := l_registry L @ [v]\<rparr>))"

definition lua_unref :: "int \<Rightarrow> lua_State \<Rightarrow> lua_State" where
  "lua_unref ref L =
     (if ref < 0 then L
      else if ref = 0 then L\<lparr>l_free_refs := []\<rparr>
      else L\<lparr>l_registry := (l_registry L)
               [nat ref - 1 := (case l_free_refs L of [] \<Rightarrow> LNil | r # _ \<Rightarrow> LNumber (real r))],
             l_free_refs := nat ref # l_free_refs L\<rparr>)"

definition lua_rawgeti :: "lua_State \<Rightarrow> int \<Rightarrow> lua_value" where
  "lua_rawgeti L ref =
     (if 1 \<le> ref \<and> nat ref \<le> length (l_registry L) then l_registry L ! (nat ref - 1)
      else LNil)"

text \<open>
  \<^verbatim>\<open>dmScript::IsVector3\<close>, \<^verbatim>\<open>CheckVector3\<close> and \<^verbatim>\<open>CheckVector4\<close>
  of the script library, and the conversion both \<^verbatim>\<open>LuaAnimate\<close> and the
  property setters apply to a vector argument: a three-component vector becomes a
  four-component one with \<open>w = 0\<close>.
\<close>

definition IsVector3 :: "lua_value \<Rightarrow> bool" where
  "IsVector3 v = (case v of LVector3 _ _ _ \<Rightarrow> True | _ \<Rightarrow> False)"

definition CheckVector3 :: "lua_value list \<Rightarrow> nat \<Rightarrow> lua_error + (real \<times> real \<times> real)" where
  "CheckVector3 args i =
     (case lua_arg args i of
        LVector3 x y z \<Rightarrow> Inr (x, y, z)
      | _ \<Rightarrow> Inl (TypeError i ''vector3''))"

definition CheckVector4 :: "lua_value list \<Rightarrow> nat \<Rightarrow> lua_error + Vector4" where
  "CheckVector4 args i =
     (case lua_arg args i of LVector4 v \<Rightarrow> Inr v | _ \<Rightarrow> Inl (TypeError i ''vector4''))"

definition vector_argument :: "lua_value list \<Rightarrow> nat \<Rightarrow> lua_error + Vector4" where
  "vector_argument args i =
     (if IsVector3 (lua_arg args i)
      then (case CheckVector3 args i of
              Inl e \<Rightarrow> Inl e
            | Inr (x, y, z) \<Rightarrow> Inr (x, y, z, 0))
      else CheckVector4 args i)"

section \<open>Node proxies\<close>

text \<open>\<^verbatim>\<open>NodeProxy_Check\<close>, lines 24 to 31.\<close>

definition NodeProxy_Check :: "lua_value list \<Rightarrow> nat \<Rightarrow> lua_error + NodeProxy" where
  "NodeProxy_Check args index =
     (case lua_arg args index of
        LNodeProxy n \<Rightarrow> Inr n
      | LVector3 _ _ _ \<Rightarrow> Inl (TypeError index NODE_PROXY_TYPE_NAME)
      | LVector4 _ \<Rightarrow> Inl (TypeError index NODE_PROXY_TYPE_NAME)
      | LUserdata _ \<Rightarrow> Inl (TypeError index NODE_PROXY_TYPE_NAME)
      | _ \<Rightarrow> Inl (TypeError index ''userdata''))"

text \<open>\<^verbatim>\<open>LuaIsNode\<close>, lines 33 to 49: a userdata whose metatable is the proxies'.\<close>

definition LuaIsNode :: "lua_value list \<Rightarrow> nat \<Rightarrow> bool" where
  "LuaIsNode args ud = (case lua_arg args ud of LNodeProxy _ \<Rightarrow> True | _ \<Rightarrow> False)"

text \<open>
  Modelled from the spec: \<^verbatim>\<open>GetNode\<close> (\<open>Get(Handle)\<close> of the Node Pool; its code,
  in \<^verbatim>\<open>gui.cpp\<close>, is not part of the sources) gives the slot the handle's index
  addresses. The pointer it returns is modelled as the position in \<^verbatim>\<open>m_Nodes\<close>.
  The binding calls it on validated handles only.
\<close>

definition GetNode :: "Scene \<Rightarrow> HNode \<Rightarrow> nat" where
  "GetNode scene node = unat (node_index node)"

text \<open>
  \<^verbatim>\<open>LuaCheckNode\<close>, lines 66 to 82. The result is the scene's address, the node
  (its position in that scene's \<^verbatim>\<open>m_Nodes\<close>) and the handle written to
  \<^verbatim>\<open>*hnode\<close>.
\<close>

definition LuaCheckNode ::
    "lua_State \<Rightarrow> lua_value list \<Rightarrow> nat \<Rightarrow> lua_error + (nat \<times> nat \<times> HNode)" where
  "LuaCheckNode L args index =
     (case NodeProxy_Check args index of
        Inl e \<Rightarrow> Inl e
      | Inr np \<Rightarrow>
          if IsValidNode (l_scenes L (m_Scene np)) (NodeProxy.m_Node np)
          then Inr (m_Scene np,
                    GetNode (l_scenes L (m_Scene np)) (NodeProxy.m_Node np),
                    NodeProxy.m_Node np)
          else Inl DeletedNode)"

text \<open>A write through a node pointer: \<^verbatim>\<open>n->field = value\<close> in scene \<open>sp\<close>.\<close>

definition update_node ::
    "nat \<Rightarrow> nat \<Rightarrow> (InternalNode \<Rightarrow> InternalNode) \<Rightarrow> lua_State \<Rightarrow> lua_State" where
  "update_node sp n f L =
     L\<lparr>l_scenes := (l_scenes L)
        (sp := (l_scenes L sp)\<lparr>m_Nodes := (m_Nodes (l_scenes L sp))
                 [n := f (m_Nodes (l_scenes L sp) ! n)]\<rparr>)\<rparr>"

text \<open>\<^verbatim>\<open>NodeProxy_eq\<close>, lines 127 to 149.\<close>

definition NodeProxy_eq ::
    "lua_State \<Rightarrow> lua_value list \<Rightarrow> (lua_error \<times> lua_State) + (lua_value list \<times> lua_State)" where
  "NodeProxy_eq L args =
     (if \<not> LuaIsNode args 1 then Inr ([LBoolean False], L)
      else if \<not> LuaIsNode args 2 then Inr ([LBoolean False], L)
      else case LuaCheckNode L args 1 of
             Inl e \<Rightarrow> Inl (e, L)
           | Inr (s1, n1, hn1) \<Rightarrow>
               (case LuaCheckNode L args 2 of
                  Inl e \<Rightarrow> Inl (e, L)
                | Inr (s2, n2, hn2) \<Rightarrow> Inr ([LBoolean (hn1 = hn2)], L)))"

text \<open>\<^verbatim>\<open>LuaDeleteNode\<close>, lines 204 to 217: sets the deferred delete flag.\<close>

definition LuaDeleteNode ::
    "lua_State \<Rightarrow> lua_value list \<Rightarrow> (lua_error \<times> lua_State) + (lua_value list \<times> lua_State)" where
  "LuaDeleteNode L args =
     (case LuaCheckNode L args 1 of
        Inl e \<Rightarrow> Inl (e, L)
      | Inr (sp, n, hnode) \<Rightarrow> Inr ([], update_node sp n (\<lambda>x. x\<lparr>m_Deleted := True\<rparr>) L))"

text \<open>
  The getters and setters the macro \<^verbatim>\<open>LUAGETSET(name, property)\<close> generates, lines
  770 to 794, with the property as a parameter.
\<close>

definition LuaGet ::
    "nat \<Rightarrow> lua_State \<Rightarrow> lua_value list
       \<Rightarrow> (lua_error \<times> lua_State) + (lua_value list \<times> lua_State)" where
  "LuaGet property L args =
     (case LuaCheckNode L args 1 of
        Inl e \<Rightarrow> Inl (e, L)
      | Inr (sp, n, hnode) \<Rightarrow>
          Inr ([LVector4 (m_Properties (InternalNode.m_Node (m_Nodes (l_scenes L sp) ! n))
                            ! property)], L))"

definition LuaSet ::
    "nat \<Rightarrow> lua_State \<Rightarrow> lua_value list
       \<Rightarrow> (lua_error \<times> lua_State) + (lua_value list \<times> lua_State)" where
  "LuaSet property L args =
     (case LuaCheckNode L args 1 of
        Inl e \<Rightarrow> Inl (e, L)
      | Inr (sp, n, hnode) \<Rightarrow>
          (case vector_argument args 2 of
             Inl e \<Rightarrow> Inl (e, L)
           | Inr pos \<Rightarrow>
               Inr ([], update_node sp n
                          (\<lambda>x. x\<lparr>m_Node := (InternalNode.m_Node x)
                                   \<lparr>m_Properties :=
                                      (m_Properties (InternalNode.m_Node x))[property := pos]\<rparr>\<rparr>)
                          L)))"

section \<open>Animations at the script interface\<close>

text \<open>
  \<^verbatim>\<open>AnimateNode\<close> is defined in \<^verbatim>\<open>gui.cpp\<close>, not part of the sources. A
  script call that reaches it is modelled by the arguments it passes: scene, handle,
  property, target value, easing, duration, delay, completion callback and the two
  opaque words.
\<close>

record animate_call =
  ac_scene :: nat
  ac_node :: HNode
  ac_property :: int
  ac_to :: Vector4
  ac_easing :: int
  ac_duration :: real
  ac_delay :: real
  ac_complete :: "AnimationComplete option"
  ac_userdata1 :: int
  ac_userdata2 :: int

text \<open>
  \<^verbatim>\<open>LuaAnimationComplete(scene, node, userdata1, userdata2)\<close>, lines 219 to 244:
  the two words are registry references of the script function and of the node proxy;
  the function is called with the scene's self reference and the proxy, then both
  references are released.
\<close>

definition LuaAnimationComplete :: "nat \<Rightarrow> HNode \<Rightarrow> int \<Rightarrow> int \<Rightarrow> lua_State \<Rightarrow> lua_State" where
  "LuaAnimationComplete scene node userdata1 userdata2 L =
     (let L1 = L\<lparr>l_scene_global := scene\<rparr>;
          ref = userdata1;
          node_ref = userdata2;
          callee = lua_rawgeti L1 ref;
          self = lua_rawgeti L1 (m_SelfReference (l_scenes L1 scene));
          proxy = lua_rawgeti L1 node_ref;
          L2 = L1\<lparr>l_pcalls := l_pcalls L1 @ [(callee, [self, proxy])]\<rparr>;
          L3 = lua_unref ref L2;
          L4 = lua_unref node_ref L3
      in L4\<lparr>l_scene_global := 0\<rparr>)"

text \<open>
  Lines 348 to 364 of \<^verbatim>\<open>LuaAnimate\<close>: the optional delay and completion
  function. The result is the delay, \<^verbatim>\<open>animation_complete_ref\<close>,
  \<^verbatim>\<open>node_ref\<close> and the state with the new registry references.
\<close>

definition LuaAnimate_optional ::
    "lua_State \<Rightarrow> lua_value list \<Rightarrow> lua_error + (real \<times> int \<times> int \<times> lua_State)" where
  "LuaAnimate_optional L args =
     (if lua_isnumber (lua_arg args 6) then
        (let delay = lua_tonumber (lua_arg args 6) in
         if lua_isfunction (lua_arg args 7) then
           (let (animation_complete_ref, L1) = luaL_ref (lua_arg args 7) L;
                (node_ref, L2) = luaL_ref (lua_arg args 1) L1
            in Inr (delay, animation_complete_ref, node_ref, L2))
         else Inr (delay, LUA_NOREF, LUA_NOREF, L))
      else if \<not> lua_isnone (lua_arg args 6) then Inl (TypeError 6 ''number'')
      else Inr (0, LUA_NOREF, LUA_NOREF, L))"

text \<open>
  \<^verbatim>\<open>LuaAnimate\<close>, lines 327 to 385. A call that raises no error ends in the call
  of \<^verbatim>\<open>AnimateNode\<close> with the arguments returned here.
\<close>

definition LuaAnimate ::
    "lua_State \<Rightarrow> lua_value list \<Rightarrow> (lua_error \<times> lua_State) + (animate_call \<times> lua_State)" where
  "LuaAnimate L args =
     (let scene = l_scene_global L in
      case LuaCheckNode L args 1 of
        Inl e \<Rightarrow> Inl (e, L)
      | Inr (sp, n, hnode) \<Rightarrow>
      (case luaL_checknumber args 2 of
        Inl e \<Rightarrow> Inl (e, L)
      | Inr p \<Rightarrow>
      (let property = c_int p in
       case vector_argument args 3 of
        Inl e \<Rightarrow> Inl (e, L)
      | Inr to \<Rightarrow>
      (case luaL_checknumber args 4 of
        Inl e \<Rightarrow> Inl (e, L)
      | Inr ea \<Rightarrow>
      (let easing = c_int ea in
       case luaL_checknumber args 5 of
        Inl e \<Rightarrow> Inl (e, L)
      | Inr duration \<Rightarrow>
      (case LuaAnimate_optional L args of
        Inl e \<Rightarrow> Inl (e, L)
      | Inr (delay, animation_complete_ref, node_ref, L1) \<Rightarrow>
          if property \<ge> PROPERTY_COUNT then Inl (InvalidPropertyIndex property, L1)
          else if easing \<ge> EASING_COUNT then Inl (InvalidEasingValue easing, L1)
          else if animation_complete_ref = LUA_NOREF then
            Inr (\<lparr>ac_scene = scene, ac_node = hnode, ac_property = property, ac_to = to,
                  ac_easing = easing, ac_duration = duration, ac_delay = delay,
                  ac_complete = None, ac_userdata1 = 0, ac_userdata2 = 0\<rparr>, L1)
          else
            Inr (\<lparr>ac_scene = scene, ac_node = hnode, ac_property = property, ac_to = to,
                  ac_easing = easing, ac_duration = duration, ac_delay = delay,
                  ac_complete = Some LuaAnimationCompletePtr,
                  ac_userdata1 = animation_complete_ref, ac_userdata2 = node_ref\<rparr>, L1)))))))"

section \<open>The node pool and the scheduler\<close>

text \<open>
  The pool and the scheduler behind the binding (\<^verbatim>\<open>NewNode\<close>,
  \<^verbatim>\<open>AnimateNode\<close>, \<^verbatim>\<open>CancelAnimation\<close>, the per-frame sweep) are defined
  in \<^verbatim>\<open>gui.cpp\<close>, which is not part of the sources. The definitions of this
  section are written from the spec's contracts (sections 3, 4.1, 4.2 and 7), on the
  data the binding shows.
\<close>

text \<open>Modelled from the spec: the error kinds of section 7.\<close>

datatype scene_error = InvalidHandle | OutOfNodes | InvalidProperty | InvalidEasing

text \<open>
  Modelled from the spec: the payload a node starts with (\<open>initializes payload
  defaults for kind\<close>, with the initial position and extents of \<open>CreateNode\<close>). The
  spec does not give the other defaults; no statement below depends on them.
\<close>

definition default_node :: "NodeType \<Rightarrow> Vector4 \<Rightarrow> Vector4 \<Rightarrow> Node" where
  "default_node kind pos ext =
     \<lparr>m_Properties = [pos, (0, 0, 0, 0), (1, 1, 1, 0), (1, 1, 1, 1), ext],
      m_NodeType = kind, m_Text = None, m_BlendMode = 0, m_Font = 0\<rparr>"

text \<open>
  Modelled from the spec: \<open>Allocate\<close> (\<^verbatim>\<open>NewNode\<close> in the source's call, line
  436) takes the next free index from the free list (here from its front), marks the
  slot occupied, does not change its version, initializes the payload, and fails with
  \<open>OutOfNodes\<close> when the free list is empty. The handle is packed from the slot's
  version and the index.
\<close>

definition NewNode :: "Scene \<Rightarrow> Vector4 \<Rightarrow> Vector4 \<Rightarrow> NodeType \<Rightarrow> scene_error + (HNode \<times> Scene)" where
  "NewNode scene pos ext kind =
     (case m_NodePool scene of
        [] \<Rightarrow> Inl OutOfNodes
      | i # rest \<Rightarrow>
          (let n = m_Nodes scene ! i
           in Inr (pack_handle (unat (m_Version n)) (of_nat i),
                   scene\<lparr>m_Nodes := (m_Nodes scene)
                           [i := n\<lparr>m_Node := default_node kind pos ext,
                                   m_Index := of_nat i, m_Deleted := False\<rparr>],
                         m_NodePool := rest\<rparr>)))"

text \<open>
  Modelled from the spec: \<open>MarkDeleted\<close> fails with \<open>InvalidHandle\<close> on an invalid
  handle and otherwise sets the pending-delete flag, as \<^verbatim>\<open>LuaDeleteNode\<close> does
  at the script interface.
\<close>

definition MarkDeleted :: "Scene \<Rightarrow> HNode \<Rightarrow> scene_error + Scene" where
  "MarkDeleted scene node =
     (if IsValidNode scene node
      then Inr (scene\<lparr>m_Nodes := (m_Nodes scene)
                  [GetNode scene node := (m_Nodes scene ! GetNode scene node)\<lparr>m_Deleted := True\<rparr>]\<rparr>)
      else Inl InvalidHandle)"

text \<open>
  Modelled from the spec: a Track belongs to the pair (node index, property).
\<close>

definition same_target :: "HNode \<Rightarrow> int \<Rightarrow> Track \<Rightarrow> bool" where
  "same_target node property t =
     (node_index (t_node t) = node_index node \<and> t_property t = property)"

text \<open>
  Modelled from the spec: the Track \<open>Start\<close> creates captures the node's current
  value of the property as its start value, clamps a negative delay to 0 and keeps
  the completion token as given.
\<close>

definition new_track :: "Scene \<Rightarrow> animate_call \<Rightarrow> Track" where
  "new_track scene c =
     \<lparr>t_node = ac_node c, t_property = ac_property c,
      t_from = m_Properties (InternalNode.m_Node (m_Nodes scene ! GetNode scene (ac_node c)))
                 ! nat (ac_property c),
      t_to = ac_to c, t_easing = ac_easing c, t_duration = ac_duration c,
      t_delay = max 0 (ac_delay c), t_elapsed = 0,
      t_complete = ac_complete c, t_userdata1 = ac_userdata1 c, t_userdata2 = ac_userdata2 c\<rparr>"

text \<open>
  Modelled from the spec: \<open>Start\<close> (\<^verbatim>\<open>AnimateNode\<close> in the source's call,
  lines 377 and 380) fails with \<open>InvalidHandle\<close>, \<open>InvalidProperty\<close> or
  \<open>InvalidEasing\<close> on inputs out of range; on success it replaces any Track of the
  same pair by the new one, which joins the Tracks last (creation order).
\<close>

definition AnimateNode :: "Scene \<Rightarrow> animate_call \<Rightarrow> scene_error + Scene" where
  "AnimateNode scene c =
     (if \<not> IsValidNode scene (ac_node c) then Inl InvalidHandle
      else if \<not> (0 \<le> ac_property c \<and> ac_property c < PROPERTY_COUNT) then Inl InvalidProperty
      else if \<not> (0 \<le> ac_easing c \<and> ac_easing c < EASING_COUNT) then Inl InvalidEasing
      else Inr (scene\<lparr>m_Animations :=
                  filter (\<lambda>t. \<not> same_target (ac_node c) (ac_property c) t) (m_Animations scene)
                  @ [new_track scene c]\<rparr>))"

text \<open>
  Modelled from the spec: \<open>Cancel\<close> (\<^verbatim>\<open>CancelAnimation\<close> in the source's call,
  line 421) removes the matching Track if there is one.
\<close>

definition CancelAnimation :: "Scene \<Rightarrow> HNode \<Rightarrow> int \<Rightarrow> Scene" where
  "CancelAnimation scene node property =
     scene\<lparr>m_Animations :=
       filter (\<lambda>t. \<not> same_target node property t) (m_Animations scene)\<rparr>"

text \<open>
  Modelled from the spec: what \<open>Sweep\<close> does to the slot it reclaims: reset the
  payload, increment the version (a 16-bit counter in the source, so it wraps), clear
  occupied. A free slot holds the index \<open>0xffff\<close>, which is no position of a pool of
  at most \<open>0xffff\<close> slots, so that the occupancy test of \<^verbatim>\<open>IsValidNode\<close> fails
  on it.
\<close>

definition reset_slot :: "InternalNode \<Rightarrow> InternalNode" where
  "reset_slot n =
     n\<lparr>m_Node := default_node NODE_TYPE_BOX (0, 0, 0, 0) (0, 0, 0, 0),
       m_Version := m_Version n + 1, m_Index := 0xffff, m_Deleted := False\<rparr>"

text \<open>
  Modelled from the spec: reclaiming slot \<open>i\<close> cancels the Tracks that reference it
  (no completion is fired), resets the slot and returns the index to the free list.
\<close>

definition reclaim :: "nat \<Rightarrow> Scene \<Rightarrow> Scene" where
  "reclaim i scene =
     scene\<lparr>m_Animations := filter (\<lambda>t. unat (node_index (t_node t)) \<noteq> i) (m_Animations scene),
           m_Nodes := (m_Nodes scene)[i := reset_slot (m_Nodes scene ! i)],
           m_NodePool := i # m_NodePool scene\<rparr>"

text \<open>
  Modelled from the spec: \<open>Sweep\<close> reclaims every occupied slot with the
  pending-delete flag, in index order, and leaves the other slots as they are.
\<close>

fun sweep_slots :: "nat list \<Rightarrow> Scene \<Rightarrow> Scene" where
  "sweep_slots [] scene = scene"
| "sweep_slots (i # rest) scene =
     sweep_slots rest
       (if slot_occupied scene i \<and> m_Deleted (m_Nodes scene ! i) then reclaim i scene
        else scene)"

text \<open>Modelled from the spec: \<open>Sweep\<close> over all slots of the pool.\<close>

definition Sweep :: "Scene \<Rightarrow> Scene" where
  "Sweep scene = sweep_slots [0..<length (m_Nodes scene)] scene"

text \<open>
  Modelled from the spec: the operations on a scene (section 6, with the Sweep of
  \<open>Update\<close>).
\<close>

datatype scene_op =
    OpNewNode Vector4 Vector4 NodeType
  | OpDeleteNode HNode
  | OpAnimate animate_call
  | OpCancelAnimation HNode int
  | OpSweep

text \<open>
  Modelled from the spec: the effect of one operation on the scene. An operation that
  fails leaves the scene unchanged (section 7).
\<close>

fun apply_op :: "scene_op \<Rightarrow> Scene \<Rightarrow> Scene" where
  "apply_op (OpNewNode pos ext kind) scene =
     (case NewNode scene pos ext kind of Inl e \<Rightarrow> scene | Inr (h, scene') \<Rightarrow> scene')"
| "apply_op (OpDeleteNode h) scene =
     (case MarkDeleted scene h of Inl e \<Rightarrow> scene | Inr scene' \<Rightarrow> scene')"
| "apply_op (OpAnimate c) scene =
     (case AnimateNode scene c of Inl e \<Rightarrow> scene | Inr scene' \<Rightarrow> scene')"
| "apply_op (OpCancelAnimation h p) scene = CancelAnimation scene h p"
| "apply_op OpSweep scene = Sweep scene"

text \<open>A run of operations, one after the other.\<close>

fun run_ops :: "scene_op list \<Rightarrow> Scene \<Rightarrow> Scene" where
  "run_ops [] scene = scene"
| "run_ops (op # ops) scene = run_ops ops (apply_op op scene)"




section \<open>Example states\<close>

text \<open>
  A scene of three slots for the concrete evaluations below: slot 0 is live with
  version 1, slot 1 is live, marked for deletion, with version \<open>0xffff\<close>, slot 2 is
  free. The script state holds this scene at every address and the scene's self
  reference in the registry.
\<close>

definition example_node :: Node where
  "example_node = \<lparr>m_Properties = [(1, 2, 3, 0), (0, 0, 0, 0), (1, 1, 1, 0), (1, 1, 1, 1), (4, 5, 0, 0)],
      m_NodeType = NODE_TYPE_BOX, m_Text = None, m_BlendMode = 0, m_Font = 0\<rparr>"

definition example_scene :: Scene where
  "example_scene = \<lparr>m_Nodes =
       [\<lparr>m_Node = example_node, m_Version = 1, m_Index = 0, m_Deleted = False\<rparr>,
        \<lparr>m_Node = example_node, m_Version = 0xffff, m_Index = 1, m_Deleted = True\<rparr>,
        \<lparr>m_Node = example_node, m_Version = 7, m_Index = 0xffff, m_Deleted = False\<rparr>],
     m_SelfReference = 1, m_NodePool = [2], m_Animations = []\<rparr>"

definition example_state :: lua_State where
  "example_state = \<lparr>l_scenes = (\<lambda>_. example_scene), l_scene_global = 1,
     l_registry = [LUserdata 0], l_free_refs = [], l_pcalls = []\<rparr>"

definition example_proxy :: lua_value where
  "example_proxy = LNodeProxy \<lparr>m_Scene = 1, m_Node = 0x00010000\<rparr>"

definition stale_proxy :: lua_value where
  "stale_proxy = LNodeProxy \<lparr>m_Scene = 1, m_Node = 0x00020000\<rparr>"

text \<open>
  The example state after the setter of the extents has written \<open>(9, 8, 0, 0)\<close> to the
  node of slot 0 of the scene at address 1.
\<close>

definition written_state :: lua_State where
  "written_state =
     example_state\<lparr>l_scenes := (l_scenes example_state)
       (1 := example_scene\<lparr>m_Nodes := (m_Nodes example_scene)
          [0 := (m_Nodes example_scene ! 0)
             \<lparr>m_Node := example_node\<lparr>m_Properties :=
                 [(1, 2, 3, 0), (0, 0, 0, 0), (1, 1, 1, 0), (1, 1, 1, 1), (9, 8, 0, 0)]\<rparr>\<rparr>]\<rparr>)\<rparr>"






section \<open>Facts about handles\<close>


lemma low_half_mask: "(0xffff :: 32 word) = mask 16"
  by (simp add: mask_eq_exp_minus_1)


lemma pack_handle_wrap: "pack_handle (v + k * 65536) i = pack_handle v i"
proof -
  have z: "(4294967296 :: 32 word) = 0"
    by simp
  have "push_bit 16 (of_nat (v + k * 65536) :: 32 word) = push_bit 16 (of_nat v)"
    by (simp add: push_bit_eq_mult algebra_simps z)
  then show ?thesis by (simp add: pack_handle_def)
qed

lemma unat_node_version: "unat (node_version h) = unat h div 65536"
proof -
  have lt: "unat h < 4294967296"
    using unsigned_less [of h, where ?'a = nat] by simp
  have d: "unat (drop_bit 16 h) = unat h div 65536"
    unfolding drop_bit_eq_div by (simp add: unat_div)
  from lt have "unat h div 65536 < 65536" by simp
  with d show ?thesis
    by (simp add: node_version_def unsigned_ucast_eq take_bit_nat_eq_self)
qed

lemma unat_node_index: "unat (node_index h) = unat h mod 65536"
proof -
  have "h AND 0xffff = take_bit 16 h"
    unfolding low_half_mask by (simp add: take_bit_eq_mask)
  moreover have "unat (take_bit 16 h) = unat h mod 65536"
    unfolding take_bit_eq_mod by (simp add: unat_mod)
  ultimately show ?thesis
    by (simp add: node_index_def unsigned_ucast_eq take_bit_eq_mod)
qed

lemma IsValidNode_iff:
  "IsValidNode scene node \<longleftrightarrow>
     unat (node_index node) < length (m_Nodes scene) \<and>
     m_Version (m_Nodes scene ! unat (node_index node)) = node_version node \<and>
     m_Index (m_Nodes scene ! unat (node_index node)) = node_index node"
  by (simp add: IsValidNode_def node_version_def node_index_def Let_def)

text \<open>
  C1. For every handle, \<^verbatim>\<open>IsValidNode\<close> (the pool's Validate) is true exactly when
  the handle's index is in range of the node array, the addressed slot is occupied, and
  the handle's version equals the slot's current version. It is a total boolean
  function of the scene and the handle: it returns no error and changes no state.
\<close>

theorem C1_validate_iff:
  "IsValidNode scene h =
     (unat (node_index h) < length (m_Nodes scene) \<and>
      slot_occupied scene (unat (node_index h)) \<and>
      node_version h = m_Version (m_Nodes scene ! unat (node_index h)))"
  by (auto simp: IsValidNode_iff slot_occupied_def word_unat_eq_iff)

text \<open>
  C9. Validation reads a handle as one 32-bit word: the version is its upper 16 bits
  (the word divided by \<open>2^16\<close>), the index its lower 16 bits (the word modulo
  \<open>2^16\<close>). So only 16 bits of a version counter reach the handle: two handles to
  the same index packed from versions that differ by a multiple of \<open>2^16\<close> are the
  same word, and validation cannot tell them apart.
\<close>

theorem C9_handle_decoding:
  "IsValidNode scene h =
     (unat h mod 65536 < length (m_Nodes scene) \<and>
      unat (m_Version (m_Nodes scene ! (unat h mod 65536))) = unat h div 65536 \<and>
      unat (m_Index (m_Nodes scene ! (unat h mod 65536))) = unat h mod 65536) \<and>
   pack_handle (v + k * 2 ^ 16) i = pack_handle v i \<and>
   IsValidNode scene (pack_handle (v + k * 2 ^ 16) i) = IsValidNode scene (pack_handle v i)"
proof -
  have 1: "IsValidNode scene h =
     (unat h mod 65536 < length (m_Nodes scene) \<and>
      unat (m_Version (m_Nodes scene ! (unat h mod 65536))) = unat h div 65536 \<and>
      unat (m_Index (m_Nodes scene ! (unat h mod 65536))) = unat h mod 65536)"
    unfolding IsValidNode_iff word_unat_eq_iff unat_node_version unat_node_index ..
  have 2: "pack_handle (v + k * 2 ^ 16) i = pack_handle v i"
    using pack_handle_wrap [of v k i] by simp
  from 1 2 show ?thesis by simp
qed

section \<open>The script interface\<close>

lemma example_valid: "IsValidNode example_scene 0x00010000"
  by (simp add: IsValidNode_def example_scene_def)

lemma example_stale: "\<not> IsValidNode example_scene 0x00020000"
  by (simp add: IsValidNode_def example_scene_def)

lemma LuaCheckNode_proxy:
  "lua_arg args i = LNodeProxy np \<Longrightarrow>
   LuaCheckNode L args i =
     (if IsValidNode (l_scenes L (m_Scene np)) (NodeProxy.m_Node np)
      then Inr (m_Scene np, unat (node_index (NodeProxy.m_Node np)), NodeProxy.m_Node np)
      else Inl DeletedNode)"
  by (simp add: LuaCheckNode_def NodeProxy_Check_def GetNode_def)

lemma LuaSet_written:
  assumes arg: "lua_arg args 1 = LNodeProxy np"
    and vec: "lua_arg args 2 = LVector4 w"
    and set: "LuaSet p L0 args = Inr (r, L)"
    and p: "p < length (m_Properties (InternalNode.m_Node
              (m_Nodes (l_scenes L0 (m_Scene np)) ! unat (node_index (NodeProxy.m_Node np)))))"
  shows "m_Properties (InternalNode.m_Node
           (m_Nodes (l_scenes L (m_Scene np)) ! unat (node_index (NodeProxy.m_Node np)))) ! p = w"
proof -
  from set arg have valid: "IsValidNode (l_scenes L0 (m_Scene np)) (NodeProxy.m_Node np)"
    by (auto simp: LuaSet_def LuaCheckNode_proxy split: if_splits)
  then have i: "unat (node_index (NodeProxy.m_Node np)) < length (m_Nodes (l_scenes L0 (m_Scene np)))"
    by (simp add: IsValidNode_iff)
  from set arg vec valid have "L = update_node (m_Scene np) (unat (node_index (NodeProxy.m_Node np)))
      (\<lambda>x. x\<lparr>m_Node := (InternalNode.m_Node x)
                \<lparr>m_Properties := (m_Properties (InternalNode.m_Node x))[p := w]\<rparr>\<rparr>) L0"
    by (auto simp: LuaSet_def LuaCheckNode_proxy vector_argument_def IsVector3_def CheckVector4_def)
  with i p show ?thesis
    by (simp add: update_node_def)
qed

text \<open>
  C2. For every valid handle, \<^verbatim>\<open>LuaDeleteNode\<close> succeeds and only sets the
  deferred delete flag of the addressed node: the state after the call is the state
  before with that one flag set (no other field of the node, no other slot, no other
  scene, nothing of the registry changes). After it the handle still validates, and
  every property getter returns the value it returned before the call; if the state
  before the call came from the property's setter writing \<open>w\<close>, the getter returns
  \<open>w\<close> after the call.
\<close>

theorem C2_delete_node_marks_only:
  assumes arg: "lua_arg args 1 = LNodeProxy np"
    and valid: "IsValidNode (l_scenes L (m_Scene np)) (NodeProxy.m_Node np)"
  shows "let sp = m_Scene np; h = NodeProxy.m_Node np; i = unat (node_index h);
             sc = l_scenes L sp;
             L' = L\<lparr>l_scenes := (l_scenes L)
                     (sp := sc\<lparr>m_Nodes := (m_Nodes sc)[i := (m_Nodes sc ! i)\<lparr>m_Deleted := True\<rparr>]\<rparr>)\<rparr>;
             v = m_Properties (InternalNode.m_Node (m_Nodes sc ! i)) ! p
         in LuaDeleteNode L args = Inr ([], L') \<and>
            IsValidNode (l_scenes L' sp) h \<and>
            LuaGet p L args = Inr ([LVector4 v], L) \<and>
            LuaGet p L' args = Inr ([LVector4 v], L') \<and>
            (\<forall>L0 w. p < length (m_Properties (InternalNode.m_Node (m_Nodes (l_scenes L0 sp) ! i))) \<and>
                    LuaSet p L0 [LNodeProxy np, LVector4 w] = Inr ([], L)
                    \<longrightarrow> LuaGet p L' args = Inr ([LVector4 w], L'))"
proof -
  let ?sp = "m_Scene np" and ?h = "NodeProxy.m_Node np"
  let ?i = "unat (node_index ?h)"
  let ?sc = "l_scenes L ?sp"
  let ?sc' = "?sc\<lparr>m_Nodes := (m_Nodes ?sc)[?i := (m_Nodes ?sc ! ?i)\<lparr>m_Deleted := True\<rparr>]\<rparr>"
  let ?L' = "L\<lparr>l_scenes := (l_scenes L)(?sp := ?sc')\<rparr>"
  let ?v = "m_Properties (InternalNode.m_Node (m_Nodes ?sc ! ?i)) ! p"
  from valid have inr: "?i < length (m_Nodes ?sc)"
    by (simp add: IsValidNode_iff)
  have del: "LuaDeleteNode L args = Inr ([], ?L')"
    using arg valid by (simp add: LuaDeleteNode_def LuaCheckNode_proxy update_node_def)
  have valid': "IsValidNode ?sc' ?h"
    using valid inr by (simp add: IsValidNode_iff)
  have get: "LuaGet p L args = Inr ([LVector4 ?v], L)"
    using arg valid by (simp add: LuaGet_def LuaCheckNode_proxy)
  have get': "LuaGet p ?L' args = Inr ([LVector4 ?v], ?L')"
    using arg valid' inr by (simp add: LuaGet_def LuaCheckNode_proxy)
  have written: "?v = w"
    if "p < length (m_Properties (InternalNode.m_Node (m_Nodes (l_scenes L0 ?sp) ! ?i)))"
      and "LuaSet p L0 [LNodeProxy np, LVector4 w] = Inr ([], L)" for L0 w
    using LuaSet_written [of "[LNodeProxy np, LVector4 w]" np w p L0 "[]" L] that
    by (simp add: lua_arg_def)
  have last: "\<forall>L0 w.
      p < length (m_Properties (InternalNode.m_Node (m_Nodes (l_scenes L0 ?sp) ! ?i))) \<and>
      LuaSet p L0 [LNodeProxy np, LVector4 w] = Inr ([], L)
      \<longrightarrow> LuaGet p ?L' args = Inr ([LVector4 w], ?L')"
  proof (intro allI impI)
    fix L0 w
    assume "p < length (m_Properties (InternalNode.m_Node (m_Nodes (l_scenes L0 ?sp) ! ?i))) \<and>
      LuaSet p L0 [LNodeProxy np, LVector4 w] = Inr ([], L)"
    then have "?v = w"
      using written by blast
    with get' show "LuaGet p ?L' args = Inr ([LVector4 w], ?L')"
      by simp
  qed
  have valid_after: "IsValidNode (l_scenes ?L' ?sp) ?h"
    using valid' by simp
  show ?thesis
    unfolding Let_def by (intro conjI del valid_after get get' last)
qed

text \<open>
  C2 at the example state: after the setter has written \<open>(9, 8, 0, 0)\<close> to the
  extents of the node of slot 0, deleting the node succeeds, the handle still
  validates and the getter returns \<open>(9, 8, 0, 0)\<close>.
\<close>

theorem C2_delete_node_marks_only_witness:
  "LuaSet PROPERTY_EXTENTS example_state [example_proxy, LVector4 (9, 8, 0, 0)] =
     Inr ([], written_state) \<and>
   IsValidNode (l_scenes written_state 1) 0x00010000 \<and>
   (\<exists>L'. LuaDeleteNode written_state [example_proxy] = Inr ([], L') \<and>
         IsValidNode (l_scenes L' 1) 0x00010000 \<and>
         LuaGet PROPERTY_EXTENTS L' [example_proxy] = Inr ([LVector4 (9, 8, 0, 0)], L'))"
proof -
  let ?np = "\<lparr>m_Scene = 1, m_Node = 0x00010000\<rparr>"
  have a: "lua_arg [example_proxy] 1 = LNodeProxy ?np"
    by (simp add: lua_arg_def example_proxy_def)
  have i: "unat (node_index (0x00010000 :: 32 word)) = 0"
    by (simp add: node_index_def)
  have v: "IsValidNode (l_scenes written_state (m_Scene ?np)) (NodeProxy.m_Node ?np)"
    by (simp add: written_state_def example_state_def IsValidNode_def example_scene_def)
  have set: "LuaSet PROPERTY_EXTENTS example_state [LNodeProxy ?np, LVector4 (9, 8, 0, 0)] =
      Inr ([], written_state)"
    by (simp add: LuaSet_def LuaCheckNode_def NodeProxy_Check_def lua_arg_def GetNode_def i
        example_state_def example_valid vector_argument_def IsVector3_def CheckVector4_def
        update_node_def written_state_def PROPERTY_EXTENTS_def)
       (simp add: example_scene_def example_node_def)
  have p: "PROPERTY_EXTENTS < length (m_Properties (InternalNode.m_Node
      (m_Nodes (l_scenes example_state (m_Scene ?np)) ! unat (node_index (NodeProxy.m_Node ?np)))))"
    by (simp add: i example_state_def example_scene_def example_node_def PROPERTY_EXTENTS_def)
  from C2_delete_node_marks_only [OF a v, of PROPERTY_EXTENTS, unfolded Let_def]
  obtain L' where del: "LuaDeleteNode written_state [example_proxy] = Inr ([], L')"
    and valid: "IsValidNode (l_scenes L' (m_Scene ?np)) (NodeProxy.m_Node ?np)"
    and written: "\<forall>L0 w.
      PROPERTY_EXTENTS < length (m_Properties (InternalNode.m_Node
        (m_Nodes (l_scenes L0 (m_Scene ?np)) ! unat (node_index (NodeProxy.m_Node ?np))))) \<and>
      LuaSet PROPERTY_EXTENTS L0 [LNodeProxy ?np, LVector4 w] = Inr ([], written_state)
      \<longrightarrow> LuaGet PROPERTY_EXTENTS L' [example_proxy] = Inr ([LVector4 w], L')"
    by blast
  from written set p
  have get: "LuaGet PROPERTY_EXTENTS L' [example_proxy] = Inr ([LVector4 (9, 8, 0, 0)], L')"
    by blast
  from set v del valid get show ?thesis
    by (auto simp: example_proxy_def)
qed

text \<open>
  C10. \<^verbatim>\<open>NodeProxy_eq\<close>: when one of the two operands is not a node proxy the
  result is \<open>false\<close>, without error. When both are node proxies, the result is the
  equality of the two handle words if both handles validate, and the error
  \<open>Deleted node\<close> if either does not. The state is never changed.
\<close>

theorem C10_node_equality:
  "(\<not> LuaIsNode args 1 \<or> \<not> LuaIsNode args 2 \<longrightarrow>
      NodeProxy_eq L args = Inr ([LBoolean False], L)) \<and>
   (lua_arg args 1 = LNodeProxy a \<and> lua_arg args 2 = LNodeProxy b \<longrightarrow>
      NodeProxy_eq L args =
        (if IsValidNode (l_scenes L (m_Scene a)) (NodeProxy.m_Node a) \<and>
            IsValidNode (l_scenes L (m_Scene b)) (NodeProxy.m_Node b)
         then Inr ([LBoolean (NodeProxy.m_Node a = NodeProxy.m_Node b)], L)
         else Inl (DeletedNode, L)))"
  by (auto simp: NodeProxy_eq_def LuaIsNode_def LuaCheckNode_proxy)


text \<open>
  C10 at the example state: a node against a number gives \<open>false\<close>, the node of
  slot 0 against itself gives \<open>true\<close>, and against a stale handle of the same slot
  the comparison raises \<open>Deleted node\<close>.
\<close>

theorem C10_node_equality_witness:
  "NodeProxy_eq example_state [example_proxy, LNumber 1] = Inr ([LBoolean False], example_state) \<and>
   NodeProxy_eq example_state [example_proxy, example_proxy] = Inr ([LBoolean True], example_state) \<and>
   NodeProxy_eq example_state [example_proxy, stale_proxy] = Inl (DeletedNode, example_state)"
proof -
  have 1: "\<not> LuaIsNode [example_proxy, LNumber 1] 2"
    by (simp add: LuaIsNode_def lua_arg_def)
  have 2: "lua_arg [example_proxy, example_proxy] 1 = LNodeProxy \<lparr>m_Scene = 1, m_Node = 0x00010000\<rparr>"
          "lua_arg [example_proxy, example_proxy] 2 = LNodeProxy \<lparr>m_Scene = 1, m_Node = 0x00010000\<rparr>"
    by (simp_all add: lua_arg_def example_proxy_def)
  have 3: "lua_arg [example_proxy, stale_proxy] 1 = LNodeProxy \<lparr>m_Scene = 1, m_Node = 0x00010000\<rparr>"
          "lua_arg [example_proxy, stale_proxy] 2 = LNodeProxy \<lparr>m_Scene = 1, m_Node = 0x00020000\<rparr>"
    by (simp_all add: lua_arg_def example_proxy_def stale_proxy_def)
  have s: "\<And>x. l_scenes example_state x = example_scene"
    by (simp add: example_state_def)
  show ?thesis
    using C10_node_equality [where args = "[example_proxy, LNumber 1]" and L = example_state]
      C10_node_equality [where args = "[example_proxy, example_proxy]" and L = example_state
          and a = "\<lparr>m_Scene = 1, m_Node = 0x00010000\<rparr>"
          and b = "\<lparr>m_Scene = 1, m_Node = 0x00010000\<rparr>"]
      C10_node_equality [where args = "[example_proxy, stale_proxy]" and L = example_state
          and a = "\<lparr>m_Scene = 1, m_Node = 0x00010000\<rparr>"
          and b = "\<lparr>m_Scene = 1, m_Node = 0x00020000\<rparr>"]
      1 2 3
    by (simp add: s example_valid example_stale)
qed

text \<open>
  C4. The claim that a failing operation leaves all state as it was does not hold for
  \<^verbatim>\<open>LuaAnimate\<close>: the registry references for the completion function and the
  node are taken (lines 354 to 360) before the property and the easing are checked
  (lines 366 to 374). With the property \<open>5 = PROPERTY_COUNT\<close> and a completion
  function the call raises \<open>Invalid property index\<close> and leaves two new references
  in the registry.
\<close>

theorem C4_animate_error_after_references:
  "LuaAnimate example_state
     [example_proxy, LNumber 5, LVector4 (0, 0, 0, 0), LNumber 0, LNumber 1, LNumber 0, LFunction 3] =
     Inl (InvalidPropertyIndex 5,
          example_state\<lparr>l_registry := [LUserdata 0, LFunction 3, example_proxy]\<rparr>) \<and>
   example_state\<lparr>l_registry := [LUserdata 0, LFunction 3, example_proxy]\<rparr> \<noteq> example_state"
  by (simp add: LuaAnimate_def LuaCheckNode_def NodeProxy_Check_def lua_arg_def example_proxy_def
      example_state_def example_valid GetNode_def luaL_checknumber_def c_int_def vector_argument_def IsVector3_def
      CheckVector4_def LuaAnimate_optional_def lua_isnumber_def lua_isfunction_def lua_tonumber_def
      luaL_ref_def PROPERTY_COUNT_def)

text \<open>
  C5. The claim that every property and every easing outside the enumerations is
  refused does not hold below the range: \<^verbatim>\<open>LuaAnimate\<close> only tests
  \<open>property \<ge> PROPERTY_COUNT\<close> and \<open>easing \<ge> EASING_COUNT\<close>. With the property
  \<open>- 1\<close>, or with the easing \<open>- 1\<close>, it raises no error and goes on to call
  \<^verbatim>\<open>AnimateNode\<close> with that value.
\<close>

theorem C5_animate_negative_property:
  "LuaAnimate example_state
     [example_proxy, LNumber (- 1), LVector4 (0, 0, 0, 0), LNumber 0, LNumber 1] =
     Inr (\<lparr>ac_scene = 1, ac_node = 0x00010000, ac_property = - 1, ac_to = (0, 0, 0, 0),
           ac_easing = 0, ac_duration = 1, ac_delay = 0,
           ac_complete = None, ac_userdata1 = 0, ac_userdata2 = 0\<rparr>, example_state) \<and>
   LuaAnimate example_state
     [example_proxy, LNumber 0, LVector4 (0, 0, 0, 0), LNumber (- 1), LNumber 1] =
     Inr (\<lparr>ac_scene = 1, ac_node = 0x00010000, ac_property = 0, ac_to = (0, 0, 0, 0),
           ac_easing = - 1, ac_duration = 1, ac_delay = 0,
           ac_complete = None, ac_userdata1 = 0, ac_userdata2 = 0\<rparr>, example_state)"
  by (simp add: LuaAnimate_def LuaCheckNode_def NodeProxy_Check_def lua_arg_def example_proxy_def
      example_state_def example_valid GetNode_def luaL_checknumber_def c_int_def vector_argument_def IsVector3_def
      CheckVector4_def LuaAnimate_optional_def lua_isnumber_def lua_isnone_def PROPERTY_COUNT_def
      EASING_COUNT_def LUA_NOREF_def ceiling_minus)







section \<open>Further properties of the script interface\<close>

text \<open>
  Every node operation of the binding validates the proxy's handle first: on a
  handle that fails validation, \<^verbatim>\<open>LuaDeleteNode\<close>, the property getters and
  setters and \<^verbatim>\<open>LuaAnimate\<close> raise \<open>Deleted node\<close> and leave the state as it
  was.
\<close>

theorem invalid_handle_raises:
  assumes arg: "lua_arg args 1 = LNodeProxy np"
    and invalid: "\<not> IsValidNode (l_scenes L (m_Scene np)) (NodeProxy.m_Node np)"
  shows "LuaDeleteNode L args = Inl (DeletedNode, L) \<and>
         LuaGet p L args = Inl (DeletedNode, L) \<and>
         LuaSet p L args = Inl (DeletedNode, L) \<and>
         LuaAnimate L args = Inl (DeletedNode, L)"
  using arg invalid
  by (simp add: LuaDeleteNode_def LuaGet_def LuaSet_def LuaAnimate_def LuaCheckNode_proxy)

text \<open>The same at the example state, with a stale handle of slot 0.\<close>

theorem invalid_handle_raises_witness:
  "lua_arg [stale_proxy, LNumber 0] 1 = stale_proxy \<and>
   \<not> IsValidNode (l_scenes example_state 1) 0x00020000 \<and>
   LuaDeleteNode example_state [stale_proxy, LNumber 0] = Inl (DeletedNode, example_state) \<and>
   LuaGet PROPERTY_COLOR example_state [stale_proxy, LNumber 0] = Inl (DeletedNode, example_state) \<and>
   LuaSet PROPERTY_COLOR example_state [stale_proxy, LNumber 0] = Inl (DeletedNode, example_state) \<and>
   LuaAnimate example_state [stale_proxy, LNumber 0] = Inl (DeletedNode, example_state)"
proof -
  let ?np = "\<lparr>m_Scene = 1, m_Node = 0x00020000\<rparr>"
  have a: "lua_arg [stale_proxy, LNumber 0] 1 = LNodeProxy ?np"
    by (simp add: lua_arg_def stale_proxy_def)
  have i: "\<not> IsValidNode (l_scenes example_state (m_Scene ?np)) (NodeProxy.m_Node ?np)"
    by (simp add: example_state_def example_stale)
  from invalid_handle_raises [OF a i, of PROPERTY_COLOR] a i show ?thesis
    by (simp add: stale_proxy_def)
qed

text \<open>
  For a valid handle and a property of the node, the setter with a vector
  argument succeeds (a three-component vector is stored with \<open>w = 0\<close>), the handle
  stays valid, and the getter then returns the stored vector.
\<close>

theorem set_then_get:
  assumes arg: "lua_arg args 1 = LNodeProxy np"
    and vec: "vector_argument args 2 = Inr w"
    and valid: "IsValidNode (l_scenes L (m_Scene np)) (NodeProxy.m_Node np)"
    and p: "p < length (m_Properties (InternalNode.m_Node
              (m_Nodes (l_scenes L (m_Scene np)) ! unat (node_index (NodeProxy.m_Node np)))))"
  shows "\<exists>L'. LuaSet p L args = Inr ([], L') \<and>
              IsValidNode (l_scenes L' (m_Scene np)) (NodeProxy.m_Node np) \<and>
              LuaGet p L' args = Inr ([LVector4 w], L')"
proof -
  let ?sp = "m_Scene np" and ?i = "unat (node_index (NodeProxy.m_Node np))"
  let ?L' = "update_node ?sp ?i
      (\<lambda>x. x\<lparr>m_Node := (InternalNode.m_Node x)
                \<lparr>m_Properties := (m_Properties (InternalNode.m_Node x))[p := w]\<rparr>\<rparr>) L"
  from valid have i: "?i < length (m_Nodes (l_scenes L ?sp))"
    by (simp add: IsValidNode_iff)
  have set: "LuaSet p L args = Inr ([], ?L')"
    using arg vec valid by (simp add: LuaSet_def LuaCheckNode_proxy)
  have valid': "IsValidNode (l_scenes ?L' ?sp) (NodeProxy.m_Node np)"
    using valid i by (simp add: IsValidNode_iff update_node_def)
  have get: "LuaGet p ?L' args = Inr ([LVector4 w], ?L')"
    using arg valid' i p by (simp add: LuaGet_def LuaCheckNode_proxy) (simp add: update_node_def)
  from set valid' get show ?thesis
    by blast
qed

text \<open>At the example state: the scale of the node of slot 0 set to \<open>(7, 8, 9)\<close>.\<close>

theorem set_then_get_witness:
  "vector_argument [example_proxy, LVector3 7 8 9] 2 = Inr (7, 8, 9, 0) \<and>
   (\<exists>L'. LuaSet PROPERTY_SCALE example_state [example_proxy, LVector3 7 8 9] = Inr ([], L') \<and>
         IsValidNode (l_scenes L' 1) 0x00010000 \<and>
         LuaGet PROPERTY_SCALE L' [example_proxy, LVector3 7 8 9] = Inr ([LVector4 (7, 8, 9, 0)], L'))"
proof -
  let ?np = "\<lparr>m_Scene = 1, m_Node = 0x00010000\<rparr>"
  let ?args = "[example_proxy, LVector3 7 8 9]"
  have a: "lua_arg ?args 1 = LNodeProxy ?np"
    by (simp add: lua_arg_def example_proxy_def)
  have vec: "vector_argument ?args 2 = Inr (7, 8, 9, 0)"
    by (simp add: vector_argument_def IsVector3_def CheckVector3_def lua_arg_def)
  have v: "IsValidNode (l_scenes example_state (m_Scene ?np)) (NodeProxy.m_Node ?np)"
    by (simp add: example_state_def example_valid)
  have i: "unat (node_index (0x00010000 :: 32 word)) = 0"
    by (simp add: node_index_def)
  have p: "PROPERTY_SCALE < length (m_Properties (InternalNode.m_Node
      (m_Nodes (l_scenes example_state (m_Scene ?np)) ! unat (node_index (NodeProxy.m_Node ?np)))))"
    by (simp add: i example_state_def example_scene_def example_node_def PROPERTY_SCALE_def)
  from set_then_get [OF a vec v p] vec show ?thesis
    by simp
qed

text \<open>
  A call of \<^verbatim>\<open>LuaAnimate\<close> that does not give both a delay and a completion
  function changes no state, whether it raises an error or reaches
  \<^verbatim>\<open>AnimateNode\<close>: no registry reference is taken.
\<close>

theorem animate_without_function_keeps_state:
  assumes none: "\<not> (lua_isnumber (lua_arg args 6) \<and> lua_isfunction (lua_arg args 7))"
  shows "case LuaAnimate L args of Inl (e, L') \<Rightarrow> L' = L | Inr (c, L') \<Rightarrow> L' = L"
  using none
  by (auto simp: LuaAnimate_def LuaAnimate_optional_def Let_def
      split: sum.splits prod.splits if_splits)

text \<open>
  At the example state: without a completion function the property 7 is refused
  and the state is as before.
\<close>

theorem animate_without_function_keeps_state_witness:
  "\<not> (lua_isnumber (lua_arg [example_proxy, LNumber 7, LVector4 (0, 0, 0, 0), LNumber 0, LNumber 1] 6) \<and>
      lua_isfunction (lua_arg [example_proxy, LNumber 7, LVector4 (0, 0, 0, 0), LNumber 0, LNumber 1] 7)) \<and>
   LuaAnimate example_state [example_proxy, LNumber 7, LVector4 (0, 0, 0, 0), LNumber 0, LNumber 1] =
     Inl (InvalidPropertyIndex 7, example_state)"
proof -
  let ?args = "[example_proxy, LNumber 7, LVector4 (0, 0, 0, 0), LNumber 0, LNumber 1]"
  have none: "\<not> (lua_isnumber (lua_arg ?args 6) \<and> lua_isfunction (lua_arg ?args 7))"
    by (simp add: lua_arg_def lua_isnumber_def)
  have err: "\<exists>L'. LuaAnimate example_state ?args = Inl (InvalidPropertyIndex 7, L')"
    by (simp add: LuaAnimate_def LuaCheckNode_def NodeProxy_Check_def lua_arg_def
        example_proxy_def example_state_def example_valid GetNode_def luaL_checknumber_def
        c_int_def vector_argument_def IsVector3_def CheckVector4_def LuaAnimate_optional_def
        lua_isnumber_def lua_isnone_def PROPERTY_COUNT_def)
  with animate_without_function_keeps_state [OF none, of example_state] none show ?thesis
    by auto
qed


lemma lua_unref_fields:
  "l_scenes (lua_unref r L) = l_scenes L \<and> l_scene_global (lua_unref r L) = l_scene_global L \<and>
   (1 \<le> r \<longrightarrow> l_free_refs (lua_unref r L) = nat r # l_free_refs L)"
  by (simp add: lua_unref_def)

text \<open>
  \<^verbatim>\<open>LuaAnimationComplete\<close> releases the two references it is given (they head
  the free list afterwards), resets the global \<^verbatim>\<open>__scene__\<close> to null and changes
  no scene.
\<close>

theorem completion_releases_references:
  assumes u1: "1 \<le> u1" and u2: "1 \<le> u2"
  shows "l_free_refs (LuaAnimationComplete scene node u1 u2 L) = nat u2 # nat u1 # l_free_refs L \<and>
         l_scene_global (LuaAnimationComplete scene node u1 u2 L) = 0 \<and>
         l_scenes (LuaAnimationComplete scene node u1 u2 L) = l_scenes L"
  using u1 u2
  by (simp add: LuaAnimationComplete_def Let_def lua_unref_fields)

text \<open>At the example state, with the references 2 and 3.\<close>

theorem completion_releases_references_witness:
  "(1::int) \<le> 2 \<and> (1::int) \<le> 3 \<and>
   l_free_refs (LuaAnimationComplete 1 0x00010000 2 3
       (example_state\<lparr>l_registry := [LUserdata 0, LFunction 3, example_proxy]\<rparr>)) = [3, 2] \<and>
   l_scene_global (LuaAnimationComplete 1 0x00010000 2 3
       (example_state\<lparr>l_registry := [LUserdata 0, LFunction 3, example_proxy]\<rparr>)) = 0"
proof -
  have a: "(1::int) \<le> 2" and b: "(1::int) \<le> 3"
    by simp_all
  from completion_releases_references [OF a b, of 1 "0x00010000"
      "example_state\<lparr>l_registry := [LUserdata 0, LFunction 3, example_proxy]\<rparr>"]
  show ?thesis
    by (simp add: example_state_def)
qed

section \<open>The node pool and the scheduler: facts\<close>

lemma length_nodes_reclaim [simp]: "length (m_Nodes (reclaim i s)) = length (m_Nodes s)"
  by (simp add: reclaim_def)


lemma length_nodes_sweep_slots [simp]:
  "length (m_Nodes (sweep_slots is s)) = length (m_Nodes s)"
  by (induction "is" arbitrary: s) auto



lemma length_nodes_Sweep [simp]: "length (m_Nodes (Sweep s)) = length (m_Nodes s)"
  by (simp add: Sweep_def)






lemma apply_op_length [simp]: "length (m_Nodes (apply_op op s)) = length (m_Nodes s)"
  by (cases op) (auto simp: NewNode_def Let_def MarkDeleted_def AnimateNode_def
      CancelAnimation_def split: list.splits)



lemma run_ops_length [simp]: "length (m_Nodes (run_ops ops s)) = length (m_Nodes s)"
  by (induction ops arbitrary: s) auto
























end
